theory Spec2Isabelle
  imports Complex_Main
begin

section \<open>Numeric values\<close>

text \<open>
  The program computes with numpy float64 values. They are modelled as exact reals
  extended by the three special values of IEEE arithmetic that the code produces and
  tests for (\<open>np.log(0)\<close> is \<open>-inf\<close>, \<open>0/0\<close> is \<open>nan\<close>, \<open>np.nan_to_num\<close> inspects
  both). Rounding, overflow and underflow of finite values, and the sign of zero, are not
  modelled: a finite result is the exact real result.
\<close>

datatype npfloat = Fin real | PInf | NInf | NaN

datatype error =
    ValueError
  | LinAlgError
  | StopIteration
  | KeyError
  | IndexError


fun fneg :: "npfloat \<Rightarrow> npfloat" where
  "fneg (Fin a) = Fin (- a)"
| "fneg PInf = NInf"
| "fneg NInf = PInf"
| "fneg NaN = NaN"

fun fadd :: "npfloat \<Rightarrow> npfloat \<Rightarrow> npfloat" where
  "fadd (Fin a) (Fin b) = Fin (a + b)"
| "fadd NaN y = NaN"
| "fadd x NaN = NaN"
| "fadd PInf NInf = NaN"
| "fadd NInf PInf = NaN"
| "fadd PInf y = PInf"
| "fadd x PInf = PInf"
| "fadd NInf y = NInf"
| "fadd x NInf = NInf"

definition fsub :: "npfloat \<Rightarrow> npfloat \<Rightarrow> npfloat" where
  "fsub x y = fadd x (fneg y)"

text \<open>The sign of a value that is not \<open>nan\<close>: -1, 0 or 1.\<close>

fun fsgn :: "npfloat \<Rightarrow> int" where
  "fsgn (Fin a) = (if a < 0 then - 1 else if a = 0 then 0 else 1)"
| "fsgn PInf = 1"
| "fsgn NInf = - 1"
| "fsgn NaN = 0"

definition inf_of_sign :: "int \<Rightarrow> npfloat" where
  "inf_of_sign s = (if s < 0 then NInf else if s = 0 then NaN else PInf)"

fun fmul :: "npfloat \<Rightarrow> npfloat \<Rightarrow> npfloat" where
  "fmul (Fin a) (Fin b) = Fin (a * b)"
| "fmul NaN y = NaN"
| "fmul x NaN = NaN"
| "fmul x y = inf_of_sign (fsgn x * fsgn y)"

fun fdiv :: "npfloat \<Rightarrow> npfloat \<Rightarrow> npfloat" where
  "fdiv (Fin a) (Fin b) = (if b = 0 then inf_of_sign (fsgn (Fin a)) else Fin (a / b))"
| "fdiv NaN y = NaN"
| "fdiv x NaN = NaN"
| "fdiv (Fin a) y = Fin 0"
| "fdiv x (Fin b) = inf_of_sign (fsgn x * (if b < 0 then - 1 else 1))"
| "fdiv x y = NaN"

fun fexp :: "npfloat \<Rightarrow> npfloat" where
  "fexp (Fin a) = Fin (exp a)"
| "fexp PInf = PInf"
| "fexp NInf = Fin 0"
| "fexp NaN = NaN"

fun flog :: "npfloat \<Rightarrow> npfloat" where
  "flog (Fin a) = (if a < 0 then NaN else if a = 0 then NInf else Fin (ln a))"
| "flog PInf = PInf"
| "flog NInf = NaN"
| "flog NaN = NaN"

text \<open>Comparisons: every comparison with \<open>nan\<close> is false.\<close>

fun fless :: "npfloat \<Rightarrow> npfloat \<Rightarrow> bool" where
  "fless (Fin a) (Fin b) = (a < b)"
| "fless NaN y = False"
| "fless x NaN = False"
| "fless PInf y = False"
| "fless x PInf = True"
| "fless x NInf = False"
| "fless NInf y = True"

fun fle :: "npfloat \<Rightarrow> npfloat \<Rightarrow> bool" where
  "fle (Fin a) (Fin b) = (a \<le> b)"
| "fle NaN y = False"
| "fle x NaN = False"
| "fle x PInf = True"
| "fle NInf y = True"
| "fle PInf y = False"
| "fle x NInf = False"

text \<open>\<open>np.max\<close> of an array: \<open>nan\<close> propagates; an empty array raises ValueError.\<close>

fun fmax2 :: "npfloat \<Rightarrow> npfloat \<Rightarrow> npfloat" where
  "fmax2 NaN y = NaN"
| "fmax2 x NaN = NaN"
| "fmax2 x y = (if fless x y then y else x)"

fun np_max :: "npfloat list \<Rightarrow> error + npfloat" where
  "np_max [] = Inl ValueError"
| "np_max (x # xs) = Inr (foldl fmax2 x xs)"

text \<open>\<open>np.sum\<close>: the sum of the elements, 0 for an empty array.\<close>

primrec np_sum :: "npfloat list \<Rightarrow> npfloat" where
  "np_sum [] = Fin 0"
| "np_sum (x # xs) = fadd x (np_sum xs)"

section \<open>logsumexp\<close>

text \<open>
  \<^verbatim>\<open>def logsumexp(x):
      c = np.max(x)
      return c + np.log(np.sum(np.exp(x-c)))\<close>
\<close>

definition logsumexp :: "npfloat list \<Rightarrow> error + npfloat" where
  "logsumexp x =
     (case np_max x of
        Inl e \<Rightarrow> Inl e
      | Inr c \<Rightarrow> Inr (fadd c (flog (np_sum (map fexp (map (\<lambda>xi. fsub xi c) x))))))"

text \<open>The naive definition the helper stabilises: the log of the sum of the exponentials.\<close>

definition naive_logsumexp :: "npfloat list \<Rightarrow> npfloat" where
  "naive_logsumexp x = flog (np_sum (map fexp x))"

section \<open>Arrays and the object store\<close>

type_synonym vec = "npfloat list"
type_synonym mat = "npfloat list list"

definition dot :: "vec \<Rightarrow> vec \<Rightarrow> npfloat" where
  "dot u v = np_sum (map (\<lambda>(a, b). fmul a b) (zip u v))"

definition matvec :: "mat \<Rightarrow> vec \<Rightarrow> vec" where
  "matvec A v = map (\<lambda>row. dot row v) A"

definition vecmat :: "vec \<Rightarrow> mat \<Rightarrow> vec" where
  "vecmat v A = map (\<lambda>col. dot v col) (transpose A)"

definition matmul :: "mat \<Rightarrow> mat \<Rightarrow> mat" where
  "matmul A B = map (\<lambda>row. vecmat row B) A"

definition vadd :: "vec \<Rightarrow> vec \<Rightarrow> vec" where
  "vadd u v = map (\<lambda>(a, b). fadd a b) (zip u v)"

definition madd :: "mat \<Rightarrow> mat \<Rightarrow> mat" where
  "madd A B = map (\<lambda>(r, r'). vadd r r') (zip A B)"

definition msub :: "mat \<Rightarrow> mat \<Rightarrow> mat" where
  "msub A B = map (\<lambda>(r, r'). map (\<lambda>(a, b). fsub a b) (zip r r')) (zip A B)"

definition vscale :: "npfloat \<Rightarrow> vec \<Rightarrow> vec" where
  "vscale c v = map (\<lambda>a. fmul c a) v"

definition mscale :: "npfloat \<Rightarrow> mat \<Rightarrow> mat" where
  "mscale c A = map (vscale c) A"

definition outer :: "vec \<Rightarrow> vec \<Rightarrow> mat" where
  "outer u v = map (\<lambda>a. map (\<lambda>b. fmul a b) v) u"

definition eye :: "nat \<Rightarrow> mat" where
  "eye n = map (\<lambda>i. map (\<lambda>j. if i = j then Fin 1 else Fin 0) [0..<n]) [0..<n]"

text \<open>Indexing raises IndexError out of range.\<close>

definition item :: "'a list \<Rightarrow> nat \<Rightarrow> error + 'a" where
  "item xs i = (if i < length xs then Inr (xs ! i) else Inl IndexError)"

text \<open>
  numpy arrays are mutable objects, and an attribute of a particle holds a reference to
  one. The store is the list of all arrays allocated so far; a reference is an index
  into it. Creating an array appends a cell; nothing is ever freed.
\<close>

datatype ndarray = Arr1 vec | Arr2 mat

type_synonym addr = nat

definition new_array :: "ndarray list \<Rightarrow> ndarray \<Rightarrow> addr \<times> ndarray list" where
  "new_array h a = (length h, h @ [a])"

definition load :: "ndarray list \<Rightarrow> addr \<Rightarrow> ndarray" where
  "load h r = (if r < length h then h ! r else Arr1 [])"


text \<open>The elements of an array as a vector (\<open>ravel\<close>), and its rows.\<close>

fun as_vec :: "ndarray \<Rightarrow> vec" where
  "as_vec (Arr1 v) = v"
| "as_vec (Arr2 m) = concat m"

fun as_mat :: "ndarray \<Rightarrow> mat" where
  "as_mat (Arr2 m) = m"
| "as_mat (Arr1 v) = map (\<lambda>a. [a]) v"

section \<open>The environment: numpy's random state and the state-space model\<close>

text \<open>
  The program draws from numpy's global random state, factorises with
  \<open>np.linalg.cholesky\<close>, and calls the state-space model of the module \<open>process\<close>
  (class \<open>LangevinModel\<close>: \<open>H_matrix\<close>, \<open>B_matrix\<close>, \<open>A_matrix\<close>, \<open>langevin_m\<close>,
  \<open>langevin_S\<close>; class \<open>GammaProcess\<close>), which is not part of the sources at hand. All of
  these are parameters: \<open>'r\<close> is the state of the random generator, threaded through
  every draw, and \<open>'z\<close> is the type of a generated gamma process. The observation
  matrix, of shape 1 x 3, is given by its row.
\<close>

record ('r, 'z) env =
  cholesky :: "mat \<Rightarrow> error + mat"
  randn :: "nat \<Rightarrow> 'r \<Rightarrow> vec \<times> 'r"
  multinomial :: "int \<Rightarrow> vec \<Rightarrow> 'r \<Rightarrow> error + (nat list \<times> 'r)"
  GammaProcess_generate :: "npfloat \<Rightarrow> npfloat \<Rightarrow> int \<Rightarrow> npfloat \<Rightarrow> npfloat \<Rightarrow> 'r \<Rightarrow> 'z \<times> 'r"
  H_matrix :: vec
  B_matrix :: mat
  A_matrix :: "vec \<Rightarrow> npfloat \<Rightarrow> mat"
  langevin_m :: "npfloat \<Rightarrow> npfloat \<Rightarrow> 'z \<Rightarrow> vec"
  langevin_S :: "npfloat \<Rightarrow> npfloat \<Rightarrow> 'z \<Rightarrow> mat"

record 'r world =
  heap :: "ndarray list"
  rng :: 'r

section \<open>LangevinParticle\<close>

text \<open>
  The attributes \<open>acc\<close>, \<open>Ccc\<close> and \<open>alpha\<close> hold references to arrays in the store;
  \<open>logweight\<close> is a number; \<open>Hmat\<close> and \<open>Bmat\<close> are never written after construction
  and are kept as values. The constructor of the base class \<open>LangevinModel\<close> is not
  part of the sources at hand; it is taken to leave these attributes alone. The fields
  \<open>acc'\<close> here and \<open>times'\<close> of the filter are the attributes \<open>acc\<close> and \<open>times\<close>.
\<close>

record LangevinParticle =
  theta :: npfloat
  kv :: npfloat
  beta :: npfloat
  sigmasq :: npfloat
  gsamps :: int
  acc' :: addr
  Ccc :: addr
  alpha :: addr
  logweight :: npfloat
  Hmat :: vec
  Bmat :: mat

definition ridge :: npfloat where
  "ridge = Fin (1 / 10 ^ 12)"

text \<open>
  \<^verbatim>\<open>self.acc = np.array([0, 0, mumu])
  self.Ccc = np.array([[0, 0, 0],[0, 0, 0],[0, 0, self.sigmasq*kw]])
  Cc = np.linalg.cholesky(self.Ccc + 1e-12*np.eye(3))
  self.alpha = self.acc + Cc @ np.random.randn(3)
  self.logweight = 0.\<close>
\<close>

definition LangevinParticle_init ::
  "('r, 'z) env \<Rightarrow> npfloat \<Rightarrow> npfloat \<Rightarrow> npfloat \<Rightarrow> npfloat \<Rightarrow> npfloat \<Rightarrow> npfloat \<Rightarrow> int \<Rightarrow>
   'r world \<Rightarrow> error + (LangevinParticle \<times> 'r world)" where
  "LangevinParticle_init E mumu sigmasq0 beta0 kw kv0 theta0 gsamps0 w =
     (let a0 = [Fin 0, Fin 0, mumu];
          C0 = [[Fin 0, Fin 0, Fin 0], [Fin 0, Fin 0, Fin 0], [Fin 0, Fin 0, fmul sigmasq0 kw]];
          (ra, h1) = new_array (heap w) (Arr1 a0);
          (rC, h2) = new_array h1 (Arr2 C0)
      in case cholesky E (madd C0 (mscale ridge (eye 3))) of
           Inl e \<Rightarrow> Inl e
         | Inr Cc \<Rightarrow>
             (let (z, g1) = randn E 3 (rng w);
                  (ral, h3) = new_array h2 (Arr1 (vadd a0 (matvec Cc z)))
              in Inr (\<lparr>theta = theta0, kv = kv0, beta = beta0, sigmasq = sigmasq0,
                        gsamps = gsamps0, acc' = ra, Ccc = rC, alpha = ral,
                        logweight = Fin 0, Hmat = H_matrix E, Bmat = B_matrix E\<rparr>,
                      \<lparr>heap = h3, rng = g1\<rparr>)))"

text \<open>
  \<open>predict\<close>: the state sample \<open>alpha\<close> is rebound to a new array; the predicted mean
  and covariance are returned.
\<close>

definition predict ::
  "('r, 'z) env \<Rightarrow> LangevinParticle \<Rightarrow> npfloat \<Rightarrow> npfloat \<Rightarrow> 'r world \<Rightarrow>
   error + ((vec \<times> mat) \<times> LangevinParticle \<times> 'r world)" where
  "predict E p s t w =
     (let dt = fsub t s;
          (Z, g1) = GammaProcess_generate E (Fin 1) (beta p) (gsamps p) s t (rng w);
          m = langevin_m E t (theta p) Z;
          S = mscale (sigmasq p) (langevin_S E t (theta p) Z)
      in case cholesky E (madd S (mscale ridge (eye 2))) of
           Inl e \<Rightarrow> Inl e
         | Inr Sc \<Rightarrow>
             (let (z, g2) = randn E 2 g1;
                  e = matvec Sc z;
                  Amat = A_matrix E m dt;
                  (ral, h1) = new_array (heap w)
                     (Arr1 (vadd (matvec Amat (as_vec (load (heap w) (alpha p))))
                                 (matvec (Bmat p) e)));
                  acp = matvec Amat (as_vec (load (heap w) (acc' p)));
                  Ccp = madd (matmul (matmul Amat (as_mat (load (heap w) (Ccc p)))) (transpose Amat))
                             (matmul (matmul (Bmat p) S) (transpose (Bmat p)))
              in Inr ((acp, Ccp), p\<lparr>alpha := ral\<rparr>, \<lparr>heap = h1, rng = g2\<rparr>)))"

definition correct :: "LangevinParticle \<Rightarrow> npfloat \<Rightarrow> vec \<Rightarrow> mat \<Rightarrow> vec \<times> mat" where
  "correct p observation acp Ccp =
     (let K = map (\<lambda>a. fdiv a (fadd (dot (vecmat (Hmat p) Ccp) (Hmat p)) (fmul (sigmasq p) (kv p))))
                  (matvec Ccp (Hmat p));
          acc1 = vadd acp (vscale (fsub observation (dot (Hmat p) acp)) K);
          Ccc1 = msub Ccp (matmul (outer K (Hmat p)) Ccp)
      in (acc1, Ccc1))"

definition log_ped :: "LangevinParticle \<Rightarrow> npfloat \<Rightarrow> vec \<Rightarrow> mat \<Rightarrow> npfloat" where
  "log_ped p observation acp Ccp =
     (let ayt = dot (Hmat p) acp;
          Cyt = fadd (dot (vecmat (Hmat p) Ccp) (Hmat p)) (fmul (sigmasq p) (kv p))
      in fsub (fmul (Fin (- (1 / 2))) (flog (fmul (Fin (2 * pi)) Cyt)))
              (fmul (fdiv (Fin 1) (fmul (Fin 2) Cyt))
                    (fmul (fsub observation ayt) (fsub observation ayt))))"

text \<open>
  \<open>increment\<close>: predict, correct (the mean and covariance attributes are rebound to the
  new arrays), then the log predictive density is added to the log-weight. Times are
  plain seconds here: the conversion of a pandas Timedelta is its identity.
\<close>

definition increment ::
  "('r, 'z) env \<Rightarrow> LangevinParticle \<Rightarrow> npfloat \<Rightarrow> npfloat \<Rightarrow> npfloat \<Rightarrow> 'r world \<Rightarrow>
   error + (LangevinParticle \<times> 'r world)" where
  "increment E p observation s t w =
     (case predict E p s t w of
        Inl e \<Rightarrow> Inl e
      | Inr ((acp, Ccp), p1, w1) \<Rightarrow>
          (let (acc1, Ccc1) = correct p1 observation acp Ccp;
               (ra, h1) = new_array (heap w1) (Arr1 acc1);
               (rC, h2) = new_array h1 (Arr2 Ccc1)
           in Inr (p1\<lparr>acc' := ra, Ccc := rC,
                       logweight := fadd (logweight p1) (log_ped p1 observation acp Ccp)\<rparr>,
                   w1\<lparr>heap := h2\<rparr>)))"

section \<open>RBPF\<close>

text \<open>
  The observation series is a data frame with the columns \<open>Date_Time\<close> and \<open>Price\<close>:
  a list of rows. The two generators over the zero-based columns are the lists of the
  items they have not yet produced.
\<close>

record RBPF =
  times' :: vec
  prices :: vec
  nobservations :: nat
  initial_time :: npfloat
  initial_price :: npfloat
  timegen :: vec
  pricegen :: vec
  current_time :: npfloat
  current_price :: npfloat
  N :: int
  log_resample_limit :: npfloat
  log_marginal_likelihood :: npfloat
  particles :: "LangevinParticle list"

text \<open>\<open>gen.__next__()\<close>: the next item and the rest, or StopIteration.\<close>

definition gen_next :: "'a list \<Rightarrow> error + ('a \<times> 'a list)" where
  "gen_next g = (case g of [] \<Rightarrow> Inl StopIteration | x # rest \<Rightarrow> Inr (x, rest))"

text \<open>\<open>[LangevinParticle(...) for _ in range(N)]\<close>\<close>

fun make_particles ::
  "('r, 'z) env \<Rightarrow> npfloat \<Rightarrow> npfloat \<Rightarrow> npfloat \<Rightarrow> npfloat \<Rightarrow> npfloat \<Rightarrow> npfloat \<Rightarrow> int \<Rightarrow>
   nat \<Rightarrow> 'r world \<Rightarrow> error + (LangevinParticle list \<times> 'r world)" where
  "make_particles E mumu sigmasq0 beta0 kw kv0 theta0 gsamps0 0 w = Inr ([], w)"
| "make_particles E mumu sigmasq0 beta0 kw kv0 theta0 gsamps0 (Suc n) w =
     (case LangevinParticle_init E mumu sigmasq0 beta0 kw kv0 theta0 gsamps0 w of
        Inl e \<Rightarrow> Inl e
      | Inr (p, w1) \<Rightarrow>
          (case make_particles E mumu sigmasq0 beta0 kw kv0 theta0 gsamps0 n w1 of
             Inl e \<Rightarrow> Inl e
           | Inr (ps, w2) \<Rightarrow> Inr (p # ps, w2)))"

text \<open>
  \<open>RBPF.__init__\<close>. Reading the first row of an empty series fails (KeyError); nothing
  else is checked.
\<close>

definition RBPF_init ::
  "('r, 'z) env \<Rightarrow> npfloat \<Rightarrow> npfloat \<Rightarrow> npfloat \<Rightarrow> npfloat \<Rightarrow> npfloat \<Rightarrow> npfloat \<Rightarrow>
   (npfloat \<times> npfloat) list \<Rightarrow> int \<Rightarrow> int \<Rightarrow> npfloat \<Rightarrow> 'r world \<Rightarrow> error + (RBPF \<times> 'r world)" where
  "RBPF_init E mumu sigmasq0 beta0 kw kv0 theta0 data N0 gsamps0 epsilon w =
     (case data of
        [] \<Rightarrow> Inl KeyError
      | (t0, p0) # _ \<Rightarrow>
          (let ps = map (\<lambda>(t, p). fsub p p0) data;
               ts = map (\<lambda>(t, p). fsub t t0) data
           in case gen_next ts of
                Inl e \<Rightarrow> Inl e
              | Inr (ct, tg) \<Rightarrow>
                  (case gen_next ps of
                     Inl e \<Rightarrow> Inl e
                   | Inr (cp, pg) \<Rightarrow>
                       (case make_particles E mumu sigmasq0 beta0 kw kv0 theta0 gsamps0 (nat N0) w of
                          Inl e \<Rightarrow> Inl e
                        | Inr (parts, w1) \<Rightarrow>
                            Inr (\<lparr>times' = ts, prices = ps, nobservations = length data,
                                   initial_time = t0, initial_price = p0,
                                   timegen = tg, pricegen = pg,
                                   current_time = ct, current_price = cp,
                                   N = N0,
                                   log_resample_limit = flog (fmul (Fin (of_int N0)) epsilon),
                                   log_marginal_likelihood = Fin 0,
                                   particles = parts\<rparr>, w1)))))"

text \<open>
  \<^verbatim>\<open>lweights = np.array([particle.logweight for particle in self.particles])
  sum_weights = logsumexp(lweights)
  for particle in self.particles:
      particle.logweight = particle.logweight - sum_weights\<close>
\<close>

definition reweight_particles :: "RBPF \<Rightarrow> error + RBPF" where
  "reweight_particles f =
     (case logsumexp (map logweight (particles f)) of
        Inl e \<Rightarrow> Inl e
      | Inr sum_weights \<Rightarrow>
          Inr (f\<lparr>particles :=
                   map (\<lambda>p. p\<lparr>logweight := fsub (logweight p) sum_weights\<rparr>) (particles f)\<rparr>))"

fun increment_all ::
  "('r, 'z) env \<Rightarrow> npfloat \<Rightarrow> npfloat \<Rightarrow> npfloat \<Rightarrow> LangevinParticle list \<Rightarrow> 'r world \<Rightarrow>
   error + (LangevinParticle list \<times> 'r world)" where
  "increment_all E observation s t [] w = Inr ([], w)"
| "increment_all E observation s t (p # ps) w =
     (case increment E p observation s t w of
        Inl e \<Rightarrow> Inl e
      | Inr (p1, w1) \<Rightarrow>
          (case increment_all E observation s t ps w1 of
             Inl e \<Rightarrow> Inl e
           | Inr (ps1, w2) \<Rightarrow> Inr (p1 # ps1, w2)))"

text \<open>
  \<^verbatim>\<open>self.current_price = self.pricegen.__next__()
  prev_time = self.current_time
  self.current_time = self.timegen.__next__()
  for particle in self.particles:
      particle.increment(self.current_price, prev_time, self.current_time)\<close>
\<close>

definition increment_particles ::
  "('r, 'z) env \<Rightarrow> RBPF \<Rightarrow> 'r world \<Rightarrow> error + (RBPF \<times> 'r world)" where
  "increment_particles E f w =
     (case gen_next (pricegen f) of
        Inl e \<Rightarrow> Inl e
      | Inr (cp, pg) \<Rightarrow>
          (let prev_time = current_time f in
           case gen_next (timegen f) of
             Inl e \<Rightarrow> Inl e
           | Inr (ct, tg) \<Rightarrow>
               (case increment_all E cp prev_time ct (particles f) w of
                  Inl e \<Rightarrow> Inl e
                | Inr (ps1, w1) \<Rightarrow>
                    Inr (f\<lparr>current_price := cp, pricegen := pg, current_time := ct,
                           timegen := tg, particles := ps1\<rparr>, w1))))"

text \<open>
  \<open>np.nan_to_num\<close>: \<open>nan\<close> becomes 0 and an infinity the largest finite float of its
  sign.
\<close>

definition float_max :: real where
  "float_max = (2 - 1 / 2 ^ 52) * 2 ^ 1023"

fun nan_to_num :: "npfloat \<Rightarrow> npfloat" where
  "nan_to_num (Fin a) = Fin a"
| "nan_to_num NaN = Fin 0"
| "nan_to_num PInf = Fin float_max"
| "nan_to_num NInf = Fin (- float_max)"

text \<open>
  \<open>copy.copy\<close> of a particle is a shallow copy: a new object with the same attribute
  values, so the references to the arrays of the mean, the covariance and the state
  sample are copied, not the arrays.
\<close>

definition copy_copy :: "LangevinParticle \<Rightarrow> LangevinParticle" where
  "copy_copy p = p"

text \<open>
  \<^verbatim>\<open>probabilites = np.nan_to_num(np.exp(lweights))
  probabilites = probabilites / np.sum(probabilites)\<close>
\<close>

definition probabilites :: "RBPF \<Rightarrow> vec" where
  "probabilites f =
     (let pr = map nan_to_num (map fexp (map logweight (particles f)))
      in map (\<lambda>a. fdiv a (np_sum pr)) pr)"

text \<open>
  \<^verbatim>\<open>for idx in range(self.N):
      for _ in range(selections[idx]):
          new_particles.append(copy.copy(self.particles[idx]))\<close>
  over the indices still to visit. \<open>selections[idx]\<close> and \<open>self.particles[idx]\<close> raise
  IndexError out of range.
\<close>

fun offspring :: "nat list \<Rightarrow> LangevinParticle list \<Rightarrow> nat list \<Rightarrow> error + LangevinParticle list" where
  "offspring selections ps [] = Inr []"
| "offspring selections ps (idx # rest) =
     (case item selections idx of
        Inl e \<Rightarrow> Inl e
      | Inr k \<Rightarrow>
          (if 0 < k \<and> length ps \<le> idx then Inl IndexError
           else (case offspring selections ps rest of
                   Inl e \<Rightarrow> Inl e
                 | Inr qs \<Rightarrow> Inr (replicate k (copy_copy (ps ! idx)) @ qs))))"

definition resample_particles ::
  "('r, 'z) env \<Rightarrow> RBPF \<Rightarrow> 'r \<Rightarrow> error + (RBPF \<times> 'r)" where
  "resample_particles E f g =
     (case multinomial E (N f) (probabilites f) g of
        Inl e \<Rightarrow> Inl e
      | Inr (selections, g1) \<Rightarrow>
          (case offspring selections (particles f) [0..<nat (N f)] of
             Inl e \<Rightarrow> Inl e
           | Inr new_particles \<Rightarrow>
               Inr (f\<lparr>particles :=
                        map (\<lambda>p. p\<lparr>logweight := fneg (flog (Fin (of_int (N f))))\<rparr>) new_particles\<rparr>,
                    g1)))"

text \<open>Diagnostic accessors.\<close>

definition vsum :: "vec list \<Rightarrow> vec" where
  "vsum vs = (case vs of [] \<Rightarrow> [] | v # rest \<Rightarrow> foldl vadd v rest)"

definition msum :: "mat list \<Rightarrow> mat" where
  "msum ms = (case ms of [] \<Rightarrow> [] | m # rest \<Rightarrow> foldl madd m rest)"

definition get_state_mean :: "RBPF \<Rightarrow> ndarray list \<Rightarrow> vec" where
  "get_state_mean f h =
     vsum (map (\<lambda>p. vscale (fexp (logweight p)) (as_vec (load h (acc' p)))) (particles f))"

definition get_state_covariance :: "RBPF \<Rightarrow> ndarray list \<Rightarrow> mat" where
  "get_state_covariance f h =
     msum (map (\<lambda>p. mscale (fexp (logweight p)) (as_mat (load h (Ccc p)))) (particles f))"


definition get_logDninf :: "RBPF \<Rightarrow> error + npfloat" where
  "get_logDninf f =
     (case np_max (map logweight (particles f)) of
        Inl e \<Rightarrow> Inl e
      | Inr m \<Rightarrow> Inr (fneg m))"

definition get_log_predictive_likelihood :: "RBPF \<Rightarrow> error + npfloat" where
  "get_log_predictive_likelihood f = logsumexp (map logweight (particles f))"

text \<open>
  \<open>run_filter\<close>. The history of the diagnostics, kept when \<open>ret_history\<close> is set, starts
  with a 0 in each list.
\<close>

record history =
  state_means :: vec
  state_variances :: vec
  grad_means :: vec
  grad_variances :: vec

definition record_history :: "RBPF \<Rightarrow> ndarray list \<Rightarrow> history \<Rightarrow> error + history" where
  "record_history f h hist =
     (let smean = get_state_mean f h; svar = get_state_covariance f h in
      case item smean 0 of Inl e \<Rightarrow> Inl e | Inr sm0 \<Rightarrow>
      case item svar 0 of Inl e \<Rightarrow> Inl e | Inr row0 \<Rightarrow>
      case item row0 0 of Inl e \<Rightarrow> Inl e | Inr sv00 \<Rightarrow>
      case item smean 1 of Inl e \<Rightarrow> Inl e | Inr sm1 \<Rightarrow>
      case item svar 1 of Inl e \<Rightarrow> Inl e | Inr row1 \<Rightarrow>
      case item row1 1 of Inl e \<Rightarrow> Inl e | Inr sv11 \<Rightarrow>
        Inr \<lparr>state_means = state_means hist @ [sm0],
             state_variances = state_variances hist @ [sv00],
             grad_means = grad_means hist @ [sm1],
             grad_variances = grad_variances hist @ [sv11]\<rparr>)"

text \<open>
  One pass of the loop body:
  \<^verbatim>\<open>self.increment_particles()
  self.log_marginal_likelihood += self.get_log_predictive_likelihood()
  self.reweight_particles()
  if ret_history: ...
  if self.get_logDninf() < self.log_resample_limit:
      self.resample_particles()\<close>
\<close>

definition run_filter_step ::
  "('r, 'z) env \<Rightarrow> RBPF \<Rightarrow> history option \<Rightarrow> 'r world \<Rightarrow>
   error + (RBPF \<times> history option \<times> 'r world)" where
  "run_filter_step E f hist w =
     (case increment_particles E f w of Inl e \<Rightarrow> Inl e | Inr (f1, w1) \<Rightarrow>
      case get_log_predictive_likelihood f1 of Inl e \<Rightarrow> Inl e | Inr lpl \<Rightarrow>
      let f2 = f1\<lparr>log_marginal_likelihood := fadd (log_marginal_likelihood f1) lpl\<rparr> in
      case reweight_particles f2 of Inl e \<Rightarrow> Inl e | Inr f3 \<Rightarrow>
      case (case hist of None \<Rightarrow> Inr None
            | Some hs \<Rightarrow> (case record_history f3 (heap w1) hs of
                            Inl e \<Rightarrow> Inl e | Inr hs1 \<Rightarrow> Inr (Some hs1))) of
        Inl e \<Rightarrow> Inl e
      | Inr hist1 \<Rightarrow>
      case get_logDninf f3 of Inl e \<Rightarrow> Inl e | Inr d \<Rightarrow>
        if fless d (log_resample_limit f3)
        then (case resample_particles E f3 (rng w1) of
                Inl e \<Rightarrow> Inl e
              | Inr (f4, g1) \<Rightarrow> Inr (f4, hist1, w1\<lparr>rng := g1\<rparr>))
        else Inr (f3, hist1, w1))"

fun run_filter_loop ::
  "('r, 'z) env \<Rightarrow> nat \<Rightarrow> RBPF \<Rightarrow> history option \<Rightarrow> 'r world \<Rightarrow>
   error + (RBPF \<times> history option \<times> 'r world)" where
  "run_filter_loop E 0 f hist w = Inr (f, hist, w)"
| "run_filter_loop E (Suc k) f hist w =
     (case run_filter_step E f hist w of
        Inl e \<Rightarrow> Inl e
      | Inr (f1, hist1, w1) \<Rightarrow> run_filter_loop E k f1 hist1 w1)"

text \<open>
  \<open>run_filter(ret_history)\<close>: the loop runs \<open>nobservations - 1\<close> times; the result is
  the accumulated log marginal likelihood, with the history when it was asked for.
\<close>

definition run_filter ::
  "('r, 'z) env \<Rightarrow> bool \<Rightarrow> RBPF \<Rightarrow> 'r world \<Rightarrow>
   error + ((history option \<times> npfloat) \<times> RBPF \<times> 'r world)" where
  "run_filter E ret_history f w =
     (let hist0 = (if ret_history
                   then Some \<lparr>state_means = [Fin 0], state_variances = [Fin 0],
                              grad_means = [Fin 0], grad_variances = [Fin 0]\<rparr>
                   else None)
      in case run_filter_loop E (nobservations f - 1) f hist0 w of
           Inl e \<Rightarrow> Inl e
         | Inr (f1, hist1, w1) \<Rightarrow> Inr ((hist1, log_marginal_likelihood f1), f1, w1))"

section \<open>gen\_gamma\_process\<close>



text \<open>
  Modelled from the spec: \<open>sort_jumps\<close> is missing. The spec gives every accepted jump
  one of the drawn times and sorts the (time, size) pairs ascending by time. The order
  is numpy's, which puts \<open>nan\<close> last; the sort is an insertion sort.
\<close>

definition sort_le :: "npfloat \<Rightarrow> npfloat \<Rightarrow> bool" where
  "sort_le a b = (b = NaN \<or> fle a b)"








section \<open>The predictive densities of one step\<close>

text \<open>
  The log predictive densities that the particles compute in one pass of
  \<open>increment_particles\<close>: for each particle in turn, \<open>log_ped\<close> at the mean and
  covariance its \<open>predict\<close> returns; the next particle starts from the world its
  \<open>increment\<close> leaves.
\<close>

fun predictive_log_densities ::
  "('r, 'z) env \<Rightarrow> npfloat \<Rightarrow> npfloat \<Rightarrow> npfloat \<Rightarrow> LangevinParticle list \<Rightarrow> 'r world \<Rightarrow>
   error + vec" where
  "predictive_log_densities E observation s t [] w = Inr []"
| "predictive_log_densities E observation s t (p # ps) w =
     (case predict E p s t w of
        Inl e \<Rightarrow> Inl e
      | Inr ((acp, Ccp), p1, w1) \<Rightarrow>
          (case increment E p observation s t w of
             Inl e \<Rightarrow> Inl e
           | Inr (p2, w2) \<Rightarrow>
               (case predictive_log_densities E observation s t ps w2 of
                  Inl e \<Rightarrow> Inl e
                | Inr ds \<Rightarrow> Inr (log_ped p1 observation acp Ccp # ds))))"

section \<open>Concrete instances\<close>

text \<open>
  A small concrete environment, particle and filter, at which the theorems below are
  instantiated. The random generator has no state, every normal draw is 0, the
  multinomial draw returns the given counts, and the model matrices are those of a
  constant state.
\<close>

definition example_env :: "nat list \<Rightarrow> (unit, unit) env" where
  "example_env counts =
     \<lparr>cholesky = (\<lambda>m. Inr m),
      randn = (\<lambda>n g. (replicate n (Fin 0), g)),
      multinomial = (\<lambda>n pv g. Inr (counts, g)),
      GammaProcess_generate = (\<lambda>c b n s t g. ((), g)),
      H_matrix = [Fin 1, Fin 0, Fin 0],
      B_matrix = [[Fin 0, Fin 0], [Fin 1, Fin 0], [Fin 0, Fin 1]],
      A_matrix = (\<lambda>m dt. eye 3),
      langevin_m = (\<lambda>t th Z. [Fin 0, Fin 0]),
      langevin_S = (\<lambda>t th Z. eye 2)\<rparr>"


definition example_particle :: "npfloat \<Rightarrow> addr \<Rightarrow> LangevinParticle" where
  "example_particle lw r =
     \<lparr>theta = Fin (- 1), kv = Fin 1, beta = Fin 1, sigmasq = Fin 1, gsamps = 10,
      acc' = r, Ccc = r + 1, alpha = r + 2, logweight = lw,
      Hmat = [Fin 1, Fin 0, Fin 0],
      Bmat = [[Fin 0, Fin 0], [Fin 1, Fin 0], [Fin 0, Fin 1]]\<rparr>"

definition example_filter :: "int \<Rightarrow> npfloat \<Rightarrow> LangevinParticle list \<Rightarrow> RBPF" where
  "example_filter n limit ps =
     \<lparr>times' = [Fin 0, Fin 1], prices = [Fin 0, Fin 1], nobservations = 2,
      initial_time = Fin 0, initial_price = Fin 0,
      timegen = [Fin 1], pricegen = [Fin 1],
      current_time = Fin 0, current_price = Fin 0,
      N = n, log_resample_limit = limit, log_marginal_likelihood = Fin 0,
      particles = ps\<rparr>"

text \<open>The store after the construction of two particles with prior mean 0.\<close>

definition example_heap :: "ndarray list" where
  "example_heap =
     [Arr1 [Fin 0, Fin 0, Fin 0],
      Arr2 [[Fin 0, Fin 0, Fin 0], [Fin 0, Fin 0, Fin 0], [Fin 0, Fin 0, Fin 1]],
      Arr1 [Fin 0, Fin 0, Fin 0],
      Arr1 [Fin 0, Fin 0, Fin 0],
      Arr2 [[Fin 0, Fin 0, Fin 0], [Fin 0, Fin 0, Fin 0], [Fin 0, Fin 0, Fin 1]],
      Arr1 [Fin 0, Fin 0, Fin 0]]"


section \<open>Facts about finite values\<close>

lemma np_sum_Fin: "np_sum (map Fin xs) = Fin (sum_list xs)"
  by (induction xs) simp_all

lemma np_sum_Fin_map: "np_sum (map (\<lambda>x. Fin (f x)) xs) = Fin (sum_list (map f xs))"
  by (induction xs) simp_all

lemma foldl_fmax2_Fin: "foldl fmax2 (Fin a) (map Fin xs) = Fin (foldl max a xs)"
  by (induction xs arbitrary: a) (simp_all add: max_def)

lemma np_max_Fin: "np_max (map Fin (x # xs)) = Inr (Fin (foldl max x xs))"
  by (simp add: foldl_fmax2_Fin)

lemma map_fexp_fsub_Fin:
  "map fexp (map (\<lambda>xi. fsub xi (Fin c)) (map Fin xs)) = map Fin (map (\<lambda>a. exp (a - c)) xs)"
  by (simp add: fsub_def)

lemma sum_list_exp_pos: "xs \<noteq> [] \<Longrightarrow> 0 < sum_list (map (\<lambda>a. exp (a - c :: real)) xs)"
proof (induction xs)
  case Nil
  then show ?case by simp
next
  case (Cons a xs)
  show ?case
  proof (cases "xs = []")
    case True
    then show ?thesis by simp
  next
    case False
    with Cons.IH have "0 < sum_list (map (\<lambda>a. exp (a - c)) xs)" by simp
    moreover have "0 < exp (a - c)" by simp
    ultimately show ?thesis by (simp add: add_pos_pos)
  qed
qed

lemma sum_list_exp_shift:
  "sum_list (map (\<lambda>a. exp (a - c :: real)) xs) = sum_list (map exp xs) / exp c"
  by (induction xs) (simp_all add: exp_diff add_divide_distrib)

lemma logsumexp_Fin:
  assumes "xs \<noteq> []"
  shows "logsumexp (map Fin xs) = Inr (Fin (ln (sum_list (map exp xs))))"
proof -
  from assms obtain y ys where xs: "xs = y # ys" by (cases xs) auto
  define c where "c = foldl max y ys"
  define s where "s = sum_list (map (\<lambda>a. exp (a - c)) xs)"
  have spos: "0 < s" unfolding s_def using assms by (rule sum_list_exp_pos)
  have mx: "np_max (map Fin xs) = Inr (Fin c)"
    unfolding xs c_def by (rule np_max_Fin)
  have "logsumexp (map Fin xs) = Inr (fadd (Fin c) (flog (Fin s)))"
    unfolding logsumexp_def mx s_def
    by (simp only: sum.case map_fexp_fsub_Fin np_sum_Fin)
  also have "\<dots> = Inr (Fin (c + ln s))" using spos by simp
  also have "c + ln s = ln (sum_list (map exp xs))"
  proof -
    have s': "s = sum_list (map exp xs) / exp c" unfolding s_def by (rule sum_list_exp_shift)
    have tpos: "0 < sum_list (map exp xs)"
      using spos unfolding s' by (simp add: zero_less_divide_iff)
    have "ln s = ln (sum_list (map exp xs)) - c"
      unfolding s' using tpos by (simp add: ln_div)
    then show ?thesis by simp
  qed
  finally show ?thesis .
qed

lemma naive_logsumexp_Fin:
  assumes "xs \<noteq> []"
  shows "naive_logsumexp (map Fin xs) = Fin (ln (sum_list (map exp xs)))"
proof -
  have "0 < sum_list (map (\<lambda>a. exp (a - 0 :: real)) xs)" using assms by (rule sum_list_exp_pos)
  then have "0 < sum_list (map exp xs)" by simp
  then show ?thesis by (simp add: naive_logsumexp_def comp_def np_sum_Fin_map)
qed

section \<open>logsumexp against its naive definition\<close>

text \<open>
  Claim C10. For every non-empty list of finite reals, \<open>logsumexp\<close>, computed as the
  maximum plus the log of the sum of the exponentials of the differences to the maximum,
  returns the log of the sum of the exponentials.
\<close>

theorem logsumexp_refines_naive:
  assumes "xs \<noteq> []"
  shows "logsumexp (map Fin xs) = Inr (naive_logsumexp (map Fin xs))
       \<and> naive_logsumexp (map Fin xs) = Fin (ln (sum_list (map exp xs)))"
  using assms by (simp add: logsumexp_Fin naive_logsumexp_Fin)

theorem logsumexp_refines_naive_witness:
  "[0, 0 :: real] \<noteq> []
   \<and> logsumexp (map Fin [0, 0]) = Inr (naive_logsumexp (map Fin [0, 0]))
   \<and> naive_logsumexp (map Fin [0, 0]) = Fin (ln 2)"
  using logsumexp_refines_naive [of "[0, 0]"] by simp

section \<open>Reweighting\<close>








section \<open>Resampling\<close>

lemma offspring_length:
  "offspring sel ps idxs = Inr qs \<Longrightarrow> length qs = sum_list (map (\<lambda>i. sel ! i) idxs)"
proof (induction idxs arbitrary: qs)
  case Nil
  then show ?case by simp
next
  case (Cons i idxs)
  then show ?case
    by (auto simp: item_def split: sum.splits if_splits)
qed

lemma resample_example:
  "resample_particles (example_env [2, 0])
     (example_filter 2 (Fin 0) [example_particle (Fin 0) 0, example_particle (Fin 0) 3]) ()
   = Inr (example_filter 2 (Fin 0)
            [example_particle (Fin (- ln 2)) 0, example_particle (Fin (- ln 2)) 0], ())"
  by (simp add: resample_particles_def example_env_def example_filter_def
      example_particle_def probabilites_def item_def copy_copy_def upt_rec numeral_2_eq_2)

text \<open>
  Claim C2. In every state in which the population has \<open>N\<close> particles and the multinomial
  draw keeps numpy's contract (one count per probability, the counts summing to \<open>N\<close>),
  when \<open>resample_particles\<close> returns the population has exactly \<open>N\<close> particles and every
  log-weight is \<open>-log(N)\<close>.
\<close>

theorem resample_particles_size_and_weights:
  assumes inv: "int (length (particles f)) = N f"
    and contract: "\<And>sel g'. multinomial E (N f) (probabilites f) g = Inr (sel, g')
                     \<Longrightarrow> length sel = length (probabilites f) \<and> int (sum_list sel) = N f"
    and res: "resample_particles E f g = Inr (f1, g1)"
  shows "int (length (particles f1)) = N f1
       \<and> N f1 = N f
       \<and> list_all (\<lambda>p. logweight p = fneg (flog (Fin (of_int (N f))))) (particles f1)
       \<and> (0 < N f \<longrightarrow> list_all (\<lambda>p. logweight p = Fin (- ln (of_int (N f)))) (particles f1))"
proof -
  from res obtain sel qs where
    mn: "multinomial E (N f) (probabilites f) g = Inr (sel, g1)"
    and off: "offspring sel (particles f) [0..<nat (N f)] = Inr qs"
    and f1: "f1 = f\<lparr>particles := map (\<lambda>p. p\<lparr>logweight := fneg (flog (Fin (of_int (N f))))\<rparr>) qs\<rparr>"
    by (auto simp: resample_particles_def split: sum.splits prod.splits)
  from contract [OF mn] have len: "length sel = length (probabilites f)"
    and tot: "int (sum_list sel) = N f" by simp_all
  have "length (probabilites f) = length (particles f)"
    by (simp add: probabilites_def Let_def)
  with len inv have n: "nat (N f) = length sel" by simp
  have "length qs = sum_list sel"
    using offspring_length [OF off] unfolding n by (simp add: map_nth)
  with tot have size: "int (length (particles f1)) = N f" unfolding f1 by simp
  have same: "N f1 = N f" unfolding f1 by simp
  have lw: "list_all (\<lambda>p. logweight p = fneg (flog (Fin (of_int (N f))))) (particles f1)"
    unfolding f1 by (simp add: list_all_iff)
  have pos: "0 < N f \<longrightarrow> list_all (\<lambda>p. logweight p = Fin (- ln (of_int (N f)))) (particles f1)"
    unfolding f1 by (simp add: list_all_iff)
  from size same lw pos show ?thesis by simp
qed

theorem resample_particles_size_and_weights_witness:
  "int (length (particles (example_filter 2 (Fin 0) [example_particle (Fin 0) 0, example_particle (Fin 0) 3]))) = 2
   \<and> resample_particles (example_env [2, 0])
        (example_filter 2 (Fin 0) [example_particle (Fin 0) 0, example_particle (Fin 0) 3]) ()
      = Inr (example_filter 2 (Fin 0)
               [example_particle (Fin (- ln 2)) 0, example_particle (Fin (- ln 2)) 0], ())
   \<and> int (length (particles (example_filter 2 (Fin 0)
               [example_particle (Fin (- ln 2)) 0, example_particle (Fin (- ln 2)) 0]))) = 2
   \<and> list_all (\<lambda>p. logweight p = Fin (- ln 2))
        (particles (example_filter 2 (Fin 0)
               [example_particle (Fin (- ln 2)) 0, example_particle (Fin (- ln 2)) 0]))"
proof -
  let ?F = "example_filter 2 (Fin 0) [example_particle (Fin 0) 0, example_particle (Fin 0) 3]"
  let ?F1 = "example_filter 2 (Fin 0)
               [example_particle (Fin (- ln 2)) 0, example_particle (Fin (- ln 2)) 0]"
  have inv: "int (length (particles ?F)) = N ?F" by (simp add: example_filter_def)
  have contract: "\<And>sel g'. multinomial (example_env [2, 0]) (N ?F) (probabilites ?F) () = Inr (sel, g')
                     \<Longrightarrow> length sel = length (probabilites ?F) \<and> int (sum_list sel) = N ?F"
    by (auto simp: example_env_def example_filter_def probabilites_def)
  from resample_particles_size_and_weights [OF inv contract resample_example]
  show ?thesis using resample_example by (simp add: example_filter_def example_particle_def)
qed

section \<open>Resampling a collapsed population\<close>







section \<open>Offspring and the store\<close>


lemma load_new_array:
  "new_array h a = (r, h') \<Longrightarrow> r = length h \<and> (\<forall>k < length h. load h' k = load h k) \<and> length h' = Suc (length h)"
  by (auto simp: new_array_def load_def nth_append)







section \<open>Parameters are not validated\<close>








section \<open>Construction and the first step\<close>

lemma fadd_zero_left: "fadd (Fin 0) x = x"
  by (cases x) simp_all

lemma LangevinParticle_init_logweight:
  "LangevinParticle_init E mumu sg b kw kv0 th gs w = Inr (p, w') \<Longrightarrow> logweight p = Fin 0"
  by (auto simp: LangevinParticle_init_def Let_def split: sum.splits prod.splits)

lemma make_particles_logweights:
  "make_particles E mumu sg b kw kv0 th gs n w = Inr (ps, w')
   \<Longrightarrow> length ps = n \<and> list_all (\<lambda>p. logweight p = Fin 0) ps"
proof (induction n arbitrary: w ps)
  case 0
  then show ?case by simp
next
  case (Suc n)
  then show ?case
    by (auto split: sum.splits prod.splits dest: LangevinParticle_init_logweight)
qed

lemma np_sum_unit_weights:
  "list_all (\<lambda>p. logweight p = Fin 0) ps
   \<Longrightarrow> np_sum (map fexp (map logweight ps)) = Fin (real (length ps))"
  by (induction ps) (simp_all add: algebra_simps)

lemma RBPF_init_result:
  assumes "RBPF_init E mumu sg b kw kv0 th data N0 gs eps w = Inr (f, w1)"
  shows "\<exists>ps. make_particles E mumu sg b kw kv0 th gs (nat N0) w = Inr (ps, w1)
            \<and> particles f = ps \<and> log_marginal_likelihood f = Fin 0 \<and> N f = N0
            \<and> log_resample_limit f = flog (fmul (Fin (of_int N0)) eps)"
  using assms
  by (auto simp: RBPF_init_def Let_def gen_next_def split: list.splits sum.splits prod.splits)

lemma predict_logweight:
  "predict E p s t w = Inr ((acp, Ccp), p1, w1) \<Longrightarrow> logweight p1 = logweight p"
  by (auto simp: predict_def Let_def split: sum.splits prod.splits)

lemma increment_logweight:
  assumes "increment E p obs s t w = Inr (p', w')"
  shows "\<exists>acp Ccp p1 w1. predict E p s t w = Inr ((acp, Ccp), p1, w1)
           \<and> logweight p' = fadd (logweight p) (log_ped p1 obs acp Ccp)"
proof -
  from assms obtain acp Ccp p1 w1 where
    pr: "predict E p s t w = Inr ((acp, Ccp), p1, w1)"
    by (auto simp: increment_def split: sum.splits prod.splits)
  from assms pr have "logweight p' = fadd (logweight p1) (log_ped p1 obs acp Ccp)"
    by (auto simp: increment_def Let_def split: prod.splits)
  with pr predict_logweight [OF pr] show ?thesis by auto
qed

lemma increment_all_logweights:
  "increment_all E obs s t ps w = Inr (ps', w')
   \<Longrightarrow> \<exists>ds. predictive_log_densities E obs s t ps w = Inr ds
          \<and> map logweight ps' = map (\<lambda>(l, d). fadd l d) (zip (map logweight ps) ds)
          \<and> length ds = length ps"
proof (induction ps arbitrary: w ps')
  case Nil
  then show ?case by simp
next
  case (Cons p ps)
  from Cons.prems obtain p2 w2 ps2 where
    inc: "increment E p obs s t w = Inr (p2, w2)"
    and rest: "increment_all E obs s t ps w2 = Inr (ps2, w')"
    and ps': "ps' = p2 # ps2"
    by (auto split: sum.splits prod.splits)
  from increment_logweight [OF inc] obtain acp Ccp p1 w1 where
    pr: "predict E p s t w = Inr ((acp, Ccp), p1, w1)"
    and lw: "logweight p2 = fadd (logweight p) (log_ped p1 obs acp Ccp)" by blast
  from Cons.IH [OF rest] obtain ds where
    ds: "predictive_log_densities E obs s t ps w2 = Inr ds"
    and m: "map logweight ps2 = map (\<lambda>(l, d). fadd l d) (zip (map logweight ps) ds)"
    and len: "length ds = length ps" by blast
  have "predictive_log_densities E obs s t (p # ps) w = Inr (log_ped p1 obs acp Ccp # ds)"
    using pr inc ds by simp
  moreover have "map logweight ps' =
      map (\<lambda>(l, d). fadd l d) (zip (map logweight (p # ps)) (log_ped p1 obs acp Ccp # ds))"
    unfolding ps' using lw m by simp
  ultimately show ?case using len by auto
qed

lemma zero_weights_add:
  assumes "list_all (\<lambda>p. logweight p = Fin 0) ps" and "length ds = length ps"
  shows "map (\<lambda>(l, d). fadd l d) (zip (map logweight ps) ds) = ds"
  using assms
proof (induction ps arbitrary: ds)
  case Nil
  then show ?case by simp
next
  case (Cons p ps)
  then obtain d ds' where "ds = d # ds'" by (cases ds) auto
  with Cons show ?case by (simp add: fadd_zero_left)
qed

lemma reweight_keeps_likelihood:
  "reweight_particles f = Inr f1
   \<Longrightarrow> log_marginal_likelihood f1 = log_marginal_likelihood f
     \<and> log_resample_limit f1 = log_resample_limit f \<and> N f1 = N f"
  by (auto simp: reweight_particles_def split: sum.splits)

lemma resample_keeps_likelihood:
  "resample_particles E f g = Inr (f1, g1)
   \<Longrightarrow> log_marginal_likelihood f1 = log_marginal_likelihood f
     \<and> log_resample_limit f1 = log_resample_limit f \<and> N f1 = N f"
  by (auto simp: resample_particles_def split: sum.splits prod.splits)

lemma increment_particles_result:
  assumes "increment_particles E f w = Inr (f1, w1)"
  shows "\<exists>cp pg ct tg ps1.
           gen_next (pricegen f) = Inr (cp, pg) \<and> gen_next (timegen f) = Inr (ct, tg)
         \<and> increment_all E cp (current_time f) ct (particles f) w = Inr (ps1, w1)
         \<and> particles f1 = ps1
         \<and> log_marginal_likelihood f1 = log_marginal_likelihood f
         \<and> log_resample_limit f1 = log_resample_limit f \<and> N f1 = N f"
  using assms
  by (auto simp: increment_particles_def Let_def split: sum.splits prod.splits)

lemma run_filter_step_result:
  assumes "run_filter_step E f hist w = Inr (f', hist', w')"
  shows "\<exists>f1 w1 lpl f3 d.
           increment_particles E f w = Inr (f1, w1)
         \<and> logsumexp (map logweight (particles f1)) = Inr lpl
         \<and> reweight_particles (f1\<lparr>log_marginal_likelihood := fadd (log_marginal_likelihood f1) lpl\<rparr>) = Inr f3
         \<and> get_logDninf f3 = Inr d
         \<and> (if fless d (log_resample_limit f3)
              then (\<exists>g1. resample_particles E f3 (rng w1) = Inr (f', g1) \<and> w' = w1\<lparr>rng := g1\<rparr>)
              else f' = f3 \<and> w' = w1)"
  using assms
  by (auto simp: run_filter_step_def get_log_predictive_likelihood_def Let_def
           split: sum.splits prod.splits if_splits option.splits)

lemmas example_defs = example_env_def example_filter_def example_particle_def example_heap_def

lemmas construct_defs = LangevinParticle_init_def new_array_def madd_def mscale_def
  vscale_def eye_def vadd_def matvec_def dot_def ridge_def RBPF_init_def gen_next_def Let_def
  upt_rec numeral_3_eq_3 numeral_2_eq_2 fsub_def

lemmas step_defs = run_filter_step_def increment_particles_def increment_def predict_def
  correct_def log_ped_def matmul_def vecmat_def msub_def outer_def load_def
  get_log_predictive_likelihood_def logsumexp_def reweight_particles_def get_logDninf_def
  resample_particles_def probabilites_def item_def copy_copy_def inf_of_sign_def

lemma init_example:
  "RBPF_init (example_env [1, 1]) (Fin 0) (Fin 1) (Fin 1) (Fin 1) (Fin 1) (Fin (- 1))
     [(Fin 0, Fin 0), (Fin 1, Fin 1)] 2 10 (Fin (1 / 2)) \<lparr>heap = [], rng = ()\<rparr>
   = Inr (example_filter 2 (Fin 0) [example_particle (Fin 0) 0, example_particle (Fin 0) 3],
          \<lparr>heap = example_heap, rng = ()\<rparr>)"
  by (simp add: example_defs construct_defs)

lemma step_example_returns:
  "\<exists>x. run_filter_step (example_env [1, 1])
     (example_filter 2 (Fin 0) [example_particle (Fin 0) 0, example_particle (Fin 0) 3]) None
     \<lparr>heap = example_heap, rng = ()\<rparr> = Inr x"
  by (simp add: example_defs construct_defs step_defs)

lemma densities_example:
  "predictive_log_densities (example_env [1, 1]) (Fin 1) (Fin 0) (Fin 1)
     [example_particle (Fin 0) 0, example_particle (Fin 0) 3]
     \<lparr>heap = example_heap, rng = ()\<rparr>
   = Inr (map Fin [- (ln (2 * pi) / 2) - 1 / 2, - (ln (2 * pi) / 2) - 1 / 2])"
  by (simp add: example_defs construct_defs step_defs)

text \<open>
  Claim C9. After construction every particle's log-weight is exactly 0, so the
  exponentiated log-weights sum to the number of particles \<open>N\<close> (for \<open>N \<ge> 0\<close>), and the
  accumulated log marginal likelihood is 0. After the first step the accumulated
  likelihood is the \<open>logsumexp\<close> of the particles' log predictive densities of that step:
  for finite densities the log of their sum, with no division by \<open>N\<close>.
\<close>

theorem initial_logweights_zero:
  assumes init: "RBPF_init E mumu sg b kw kv0 th data N0 gs eps w = Inr (f, w1)"
  shows "list_all (\<lambda>p. logweight p = Fin 0) (particles f)
       \<and> length (particles f) = nat N0
       \<and> np_sum (map fexp (map logweight (particles f))) = Fin (real (nat N0))
       \<and> log_marginal_likelihood f = Fin 0
       \<and> (\<forall>f' hist hist' w'.
            run_filter_step E f hist w1 = Inr (f', hist', w') \<longrightarrow>
            (\<exists>cp pg ct tg ds.
               gen_next (pricegen f) = Inr (cp, pg) \<and> gen_next (timegen f) = Inr (ct, tg)
             \<and> predictive_log_densities E cp (current_time f) ct (particles f) w1 = Inr ds
             \<and> length ds = length (particles f)
             \<and> logsumexp ds = Inr (log_marginal_likelihood f')
             \<and> (\<forall>rs. ds = map Fin rs \<longrightarrow>
                    log_marginal_likelihood f' = Fin (ln (sum_list (map exp rs))))))"
proof -
  from RBPF_init_result [OF init] obtain ps where
    mk: "make_particles E mumu sg b kw kv0 th gs (nat N0) w = Inr (ps, w1)"
    and ps: "particles f = ps" and l0: "log_marginal_likelihood f = Fin 0" by blast
  from make_particles_logweights [OF mk] ps have
    len: "length (particles f) = nat N0"
    and zero: "list_all (\<lambda>p. logweight p = Fin 0) (particles f)" by simp_all
  have total: "np_sum (map fexp (map logweight (particles f))) = Fin (real (nat N0))"
    using np_sum_unit_weights [OF zero] len by simp
  have step: "\<exists>cp pg ct tg ds.
               gen_next (pricegen f) = Inr (cp, pg) \<and> gen_next (timegen f) = Inr (ct, tg)
             \<and> predictive_log_densities E cp (current_time f) ct (particles f) w1 = Inr ds
             \<and> length ds = length (particles f)
             \<and> logsumexp ds = Inr (log_marginal_likelihood f')
             \<and> (\<forall>rs. ds = map Fin rs \<longrightarrow>
                    log_marginal_likelihood f' = Fin (ln (sum_list (map exp rs))))"
    if run: "run_filter_step E f hist w1 = Inr (f', hist', w')" for f' hist hist' w'
  proof -
    from run_filter_step_result [OF run] obtain f1 w2 lpl f3 d where
      inc: "increment_particles E f w1 = Inr (f1, w2)"
      and lse: "logsumexp (map logweight (particles f1)) = Inr lpl"
      and rew: "reweight_particles (f1\<lparr>log_marginal_likelihood := fadd (log_marginal_likelihood f1) lpl\<rparr>) = Inr f3"
      and fin: "if fless d (log_resample_limit f3)
                then (\<exists>g1. resample_particles E f3 (rng w2) = Inr (f', g1) \<and> w' = w2\<lparr>rng := g1\<rparr>)
                else f' = f3 \<and> w' = w2"
      by blast
    from increment_particles_result [OF inc] obtain cp pg ct tg ps1 where
      g1: "gen_next (pricegen f) = Inr (cp, pg)" and g2: "gen_next (timegen f) = Inr (ct, tg)"
      and all: "increment_all E cp (current_time f) ct (particles f) w1 = Inr (ps1, w2)"
      and p1: "particles f1 = ps1"
      and l1: "log_marginal_likelihood f1 = log_marginal_likelihood f" by blast
    from increment_all_logweights [OF all] obtain ds where
      ds: "predictive_log_densities E cp (current_time f) ct (particles f) w1 = Inr ds"
      and m: "map logweight ps1 = map (\<lambda>(l, d). fadd l d) (zip (map logweight (particles f)) ds)"
      and dl: "length ds = length (particles f)" by blast
    from m zero_weights_add [OF zero dl] have lw: "map logweight (particles f1) = ds"
      using p1 by simp
    have l3: "log_marginal_likelihood f3 = lpl"
      using reweight_keeps_likelihood [OF rew] l1 l0 by (simp add: fadd_zero_left)
    have l': "log_marginal_likelihood f' = lpl"
    proof (cases "fless d (log_resample_limit f3)")
      case True
      with fin obtain g1 where "resample_particles E f3 (rng w2) = Inr (f', g1)" by auto
      from resample_keeps_likelihood [OF this] l3 show ?thesis by simp
    next
      case False
      with fin l3 show ?thesis by simp
    qed
    have lse': "logsumexp ds = Inr (log_marginal_likelihood f')"
      using lse lw l' by simp
    have "log_marginal_likelihood f' = Fin (ln (sum_list (map exp rs)))" if r: "ds = map Fin rs" for rs
    proof -
      have "rs \<noteq> []"
      proof
        assume "rs = []"
        with r lse' show False by (simp add: logsumexp_def)
      qed
      from logsumexp_Fin [OF this] lse' r show ?thesis by simp
    qed
    with g1 g2 ds dl lse' show ?thesis by blast
  qed
  from zero len total l0 step show ?thesis by blast
qed

theorem initial_logweights_zero_witness:
  "RBPF_init (example_env [1, 1]) (Fin 0) (Fin 1) (Fin 1) (Fin 1) (Fin 1) (Fin (- 1))
     [(Fin 0, Fin 0), (Fin 1, Fin 1)] 2 10 (Fin (1 / 2)) \<lparr>heap = [], rng = ()\<rparr>
   = Inr (example_filter 2 (Fin 0) [example_particle (Fin 0) 0, example_particle (Fin 0) 3],
          \<lparr>heap = example_heap, rng = ()\<rparr>)
   \<and> list_all (\<lambda>p. logweight p = Fin 0)
        (particles (example_filter 2 (Fin 0) [example_particle (Fin 0) 0, example_particle (Fin 0) 3]))
   \<and> np_sum (map fexp (map logweight
        (particles (example_filter 2 (Fin 0) [example_particle (Fin 0) 0, example_particle (Fin 0) 3]))))
      = Fin 2
   \<and> (\<exists>f' hist' w'.
         run_filter_step (example_env [1, 1])
           (example_filter 2 (Fin 0) [example_particle (Fin 0) 0, example_particle (Fin 0) 3]) None
           \<lparr>heap = example_heap, rng = ()\<rparr> = Inr (f', hist', w')
       \<and> log_marginal_likelihood f'
         = Fin (ln (sum_list (map exp [- (ln (2 * pi) / 2) - 1 / 2, - (ln (2 * pi) / 2) - 1 / 2]))))"
proof -
  let ?F = "example_filter 2 (Fin 0) [example_particle (Fin 0) 0, example_particle (Fin 0) 3]"
  let ?W = "\<lparr>heap = example_heap, rng = ()\<rparr>"
  let ?rs = "[- (ln (2 * pi) / 2) - 1 / 2, - (ln (2 * pi) / 2) - 1 / 2 :: real]"
  note concl = initial_logweights_zero [OF init_example]
  from step_example_returns obtain f' hist' w' where
    run: "run_filter_step (example_env [1, 1]) ?F None ?W = Inr (f', hist', w')"
    by (metis prod_cases3)
  from concl run obtain cp pg ct tg ds where
    g1: "gen_next (pricegen ?F) = Inr (cp, pg)" and g2: "gen_next (timegen ?F) = Inr (ct, tg)"
    and ds: "predictive_log_densities (example_env [1, 1]) cp (current_time ?F) ct (particles ?F) ?W = Inr ds"
    and fin: "\<forall>rs. ds = map Fin rs \<longrightarrow> log_marginal_likelihood f' = Fin (ln (sum_list (map exp rs)))"
    by blast
  from g1 g2 have "cp = Fin 1" "ct = Fin 1"
    by (simp_all add: example_filter_def gen_next_def)
  with ds densities_example have "ds = map Fin ?rs"
    by (simp add: example_filter_def)
  with fin have "log_marginal_likelihood f' = Fin (ln (sum_list (map exp ?rs)))" by blast
  with run have ex: "\<exists>f' hist' w'.
         run_filter_step (example_env [1, 1]) ?F None ?W = Inr (f', hist', w')
       \<and> log_marginal_likelihood f' = Fin (ln (sum_list (map exp ?rs)))" by blast
  from concl have "list_all (\<lambda>p. logweight p = Fin 0) (particles ?F)"
    and "np_sum (map fexp (map logweight (particles ?F))) = Fin 2" by simp_all
  with init_example ex show ?thesis by blast
qed

section \<open>The order of a filter step\<close>

lemma reweight_particles_result:
  assumes "reweight_particles f = Inr f1"
  shows "\<exists>lse. logsumexp (map logweight (particles f)) = Inr lse
          \<and> map logweight (particles f1) = map (\<lambda>l. fsub l lse) (map logweight (particles f))"
  using assms
  by (auto simp: reweight_particles_def comp_def split: sum.splits)

lemma init_example_resampling:
  "RBPF_init (example_env [1, 1]) (Fin 0) (Fin 1) (Fin 1) (Fin 1) (Fin 1) (Fin (- 1))
     [(Fin 0, Fin 0), (Fin 1, Fin 1)] 2 10 (Fin 2) \<lparr>heap = [], rng = ()\<rparr>
   = Inr (example_filter 2 (Fin (ln 4)) [example_particle (Fin 0) 0, example_particle (Fin 0) 3],
          \<lparr>heap = example_heap, rng = ()\<rparr>)"
  by (simp add: example_defs construct_defs)

lemma step_example_resampling_returns:
  "\<exists>x. run_filter_step (example_env [1, 1])
     (example_filter 2 (Fin (ln 4)) [example_particle (Fin 0) 0, example_particle (Fin 0) 3]) None
     \<lparr>heap = example_heap, rng = ()\<rparr> = Inr x"
  by (simp add: example_defs construct_defs step_defs)

text \<open>
  Claim C5. In every pass of the loop of \<open>run_filter\<close> that returns, the particles are
  incremented first; the log marginal likelihood grows by the \<open>logsumexp\<close> of the
  log-weights as the increment left them, before they are normalised; the normalised
  log-weights are those minus that \<open>logsumexp\<close>; and resampling is performed in the pass
  exactly when minus the maximum of the normalised log-weights is strictly less than the
  resampling limit. The limit is never changed by a pass, and the constructor sets it to
  \<open>log(N * epsilon)\<close>.
\<close>

theorem run_filter_step_order:
  assumes run: "run_filter_step E f hist w = Inr (f', hist', w')"
  shows "(\<exists>f1 w1 lpl f3 m.
            increment_particles E f w = Inr (f1, w1)
          \<and> logsumexp (map logweight (particles f1)) = Inr lpl
          \<and> log_marginal_likelihood f' = fadd (log_marginal_likelihood f) lpl
          \<and> reweight_particles
               (f1\<lparr>log_marginal_likelihood := fadd (log_marginal_likelihood f1) lpl\<rparr>) = Inr f3
          \<and> map logweight (particles f3) = map (\<lambda>l. fsub l lpl) (map logweight (particles f1))
          \<and> np_max (map logweight (particles f3)) = Inr m
          \<and> (if fless (fneg m) (log_resample_limit f)
                then (\<exists>g1. resample_particles E f3 (rng w1) = Inr (f', g1) \<and> w' = w1\<lparr>rng := g1\<rparr>)
                else f' = f3 \<and> w' = w1))
       \<and> log_resample_limit f' = log_resample_limit f
       \<and> (RBPF_init E mumu sg b kw kv0 th data N0 gs eps w0 = Inr (f, w)
            \<longrightarrow> log_resample_limit f = flog (fmul (Fin (of_int N0)) eps))"
proof -
  from run_filter_step_result [OF run] obtain f1 w1 lpl f3 d where
    inc: "increment_particles E f w = Inr (f1, w1)"
    and lse: "logsumexp (map logweight (particles f1)) = Inr lpl"
    and rew: "reweight_particles (f1\<lparr>log_marginal_likelihood := fadd (log_marginal_likelihood f1) lpl\<rparr>) = Inr f3"
    and dn: "get_logDninf f3 = Inr d"
    and fin: "if fless d (log_resample_limit f3)
              then (\<exists>g1. resample_particles E f3 (rng w1) = Inr (f', g1) \<and> w' = w1\<lparr>rng := g1\<rparr>)
              else f' = f3 \<and> w' = w1"
    by blast
  from increment_particles_result [OF inc] have
    l1: "log_marginal_likelihood f1 = log_marginal_likelihood f"
    and r1: "log_resample_limit f1 = log_resample_limit f" by auto
  from reweight_keeps_likelihood [OF rew] l1 r1 have
    l3: "log_marginal_likelihood f3 = fadd (log_marginal_likelihood f) lpl"
    and r3: "log_resample_limit f3 = log_resample_limit f" by simp_all
  from reweight_particles_result [OF rew] lse have
    lw3: "map logweight (particles f3) = map (\<lambda>l. fsub l lpl) (map logweight (particles f1))"
    by simp
  from dn obtain m where m: "np_max (map logweight (particles f3)) = Inr m" and d: "d = fneg m"
    by (auto simp: get_logDninf_def split: sum.splits)
  have keep: "log_marginal_likelihood f' = fadd (log_marginal_likelihood f) lpl
            \<and> log_resample_limit f' = log_resample_limit f"
  proof (cases "fless d (log_resample_limit f3)")
    case True
    with fin obtain g1 where "resample_particles E f3 (rng w1) = Inr (f', g1)" by auto
    from resample_keeps_likelihood [OF this] l3 r3 show ?thesis by simp
  next
    case False
    with fin l3 r3 show ?thesis by simp
  qed
  have first: "\<exists>f1 w1 lpl f3 m.
            increment_particles E f w = Inr (f1, w1)
          \<and> logsumexp (map logweight (particles f1)) = Inr lpl
          \<and> log_marginal_likelihood f' = fadd (log_marginal_likelihood f) lpl
          \<and> reweight_particles
               (f1\<lparr>log_marginal_likelihood := fadd (log_marginal_likelihood f1) lpl\<rparr>) = Inr f3
          \<and> map logweight (particles f3) = map (\<lambda>l. fsub l lpl) (map logweight (particles f1))
          \<and> np_max (map logweight (particles f3)) = Inr m
          \<and> (if fless (fneg m) (log_resample_limit f)
                then (\<exists>g1. resample_particles E f3 (rng w1) = Inr (f', g1) \<and> w' = w1\<lparr>rng := g1\<rparr>)
                else f' = f3 \<and> w' = w1)"
    using inc lse keep rew lw3 m fin unfolding d r3 by blast
  have limit: "RBPF_init E mumu sg b kw kv0 th data N0 gs eps w0 = Inr (f, w)
            \<longrightarrow> log_resample_limit f = flog (fmul (Fin (of_int N0)) eps)"
    using RBPF_init_result by blast
  from first keep limit show ?thesis by blast
qed

theorem run_filter_step_order_witness:
  "RBPF_init (example_env [1, 1]) (Fin 0) (Fin 1) (Fin 1) (Fin 1) (Fin 1) (Fin (- 1))
     [(Fin 0, Fin 0), (Fin 1, Fin 1)] 2 10 (Fin 2) \<lparr>heap = [], rng = ()\<rparr>
   = Inr (example_filter 2 (Fin (ln 4)) [example_particle (Fin 0) 0, example_particle (Fin 0) 3],
          \<lparr>heap = example_heap, rng = ()\<rparr>)
   \<and> log_resample_limit
        (example_filter 2 (Fin (ln 4)) [example_particle (Fin 0) 0, example_particle (Fin 0) 3])
      = flog (fmul (Fin (of_int 2)) (Fin 2))
   \<and> (\<exists>f' hist' w'.
         run_filter_step (example_env [1, 1])
           (example_filter 2 (Fin (ln 4)) [example_particle (Fin 0) 0, example_particle (Fin 0) 3])
           None \<lparr>heap = example_heap, rng = ()\<rparr> = Inr (f', hist', w')
       \<and> log_resample_limit f' = Fin (ln 4)
       \<and> (\<exists>f1 w1 lpl f3 m.
             increment_particles (example_env [1, 1])
               (example_filter 2 (Fin (ln 4)) [example_particle (Fin 0) 0, example_particle (Fin 0) 3])
               \<lparr>heap = example_heap, rng = ()\<rparr> = Inr (f1, w1)
           \<and> logsumexp (map logweight (particles f1)) = Inr lpl
           \<and> log_marginal_likelihood f' = fadd (Fin 0) lpl
           \<and> reweight_particles
                (f1\<lparr>log_marginal_likelihood := fadd (log_marginal_likelihood f1) lpl\<rparr>) = Inr f3
           \<and> np_max (map logweight (particles f3)) = Inr m
           \<and> (if fless (fneg m) (Fin (ln 4))
                 then (\<exists>g1. resample_particles (example_env [1, 1]) f3 (rng w1) = Inr (f', g1)
                            \<and> w' = w1\<lparr>rng := g1\<rparr>)
                 else f' = f3 \<and> w' = w1)))"
proof -
  let ?E = "example_env [1, 1]"
  let ?F = "example_filter 2 (Fin (ln 4)) [example_particle (Fin 0) 0, example_particle (Fin 0) 3]"
  let ?W = "\<lparr>heap = example_heap, rng = ()\<rparr>"
  have lim: "log_resample_limit ?F = Fin (ln 4)" and lml: "log_marginal_likelihood ?F = Fin 0"
    by (simp_all add: example_filter_def)
  from step_example_resampling_returns obtain f' hist' w' where
    run: "run_filter_step ?E ?F None ?W = Inr (f', hist', w')"
    by (metis prod_cases3)
  note concl = run_filter_step_order
    [OF run, of "Fin 0" "Fin 1" "Fin 1" "Fin 1" "Fin 1" "Fin (- 1)"
       "[(Fin 0, Fin 0), (Fin 1, Fin 1)]" 2 10 "Fin 2" "\<lparr>heap = [], rng = ()\<rparr>"]
  from concl init_example_resampling
  have a: "log_resample_limit ?F = flog (fmul (Fin (of_int 2)) (Fin 2))" by blast
  from concl have b: "log_resample_limit f' = Fin (ln 4)" unfolding lim by blast
  from concl obtain f1 w1 lpl f3 m where c:
    "increment_particles ?E ?F ?W = Inr (f1, w1)"
    "logsumexp (map logweight (particles f1)) = Inr lpl"
    "log_marginal_likelihood f' = fadd (Fin 0) lpl"
    "reweight_particles (f1\<lparr>log_marginal_likelihood := fadd (log_marginal_likelihood f1) lpl\<rparr>) = Inr f3"
    "np_max (map logweight (particles f3)) = Inr m"
    "if fless (fneg m) (Fin (ln 4))
       then (\<exists>g1. resample_particles ?E f3 (rng w1) = Inr (f', g1) \<and> w' = w1\<lparr>rng := g1\<rparr>)
       else f' = f3 \<and> w' = w1"
    unfolding lim lml by blast
  from init_example_resampling a run b c show ?thesis by blast
qed

section \<open>Effective sample size\<close>


























section \<open>The simulated path\<close>






lemma fle_total_Fin: "\<not> sort_le (Fin a) (Fin b) \<Longrightarrow> fle (Fin b) (Fin a)"
  by (simp add: sort_le_def)








end
